theory Spec2Isabelle
  imports Main
begin

section \<open>The chat client of \<^verbatim>\<open>aibot.py\<close>: strings, environment, traces\<close>

text \<open>
  The program is an interactive loop around three collaborators: the terminal
  (\<^verbatim>\<open>input()\<close>, \<^verbatim>\<open>console.print\<close>), the log, and the remote service
  (\<^verbatim>\<open>api.prompt\<close>). None of its functions returns a value that matters; what they do is
  what they read, call and print. The embedding therefore threads an explicit
  environment (\<open>world\<close>) through every function: the lines still to be read, the number
  of \<^verbatim>\<open>api.prompt\<close> calls made so far, and the trace of everything printed, logged,
  slept and sent. Exceptions are values of type \<open>exn\<close> on the left of a sum.
\<close>

subsection \<open>Python string operations\<close>

text \<open>
  Strings are lists of 8-bit characters read as the code points 0..255.
  \<^verbatim>\<open>str.strip()\<close> removes the characters for which \<^verbatim>\<open>str.isspace()\<close> holds; below 256
  these are TAB, LF, VT, FF, CR, the separators 0x1C..0x1F, SPACE, NEL (0x85) and
  NBSP (0xA0). \<^verbatim>\<open>lower()\<close> and \<^verbatim>\<open>upper()\<close> are modelled on the ASCII letters; every other
  character is left as it is.
\<close>

definition is_space :: "char \<Rightarrow> bool" where
  "is_space c = (c \<in> set [CHR 0x09, CHR 0x0A, CHR 0x0B, CHR 0x0C, CHR 0x0D,
                           CHR 0x1C, CHR 0x1D, CHR 0x1E, CHR 0x1F, CHR 0x20,
                           CHR 0x85, CHR 0xA0])"

definition lstrip :: "string \<Rightarrow> string" where
  "lstrip s = dropWhile is_space s"

definition rstrip :: "string \<Rightarrow> string" where
  "rstrip s = rev (dropWhile is_space (rev s))"

definition strip :: "string \<Rightarrow> string" where
  "strip s = rstrip (lstrip s)"

definition lower_char :: "char \<Rightarrow> char" where
  "lower_char c =
     (case map_of (zip ''ABCDEFGHIJKLMNOPQRSTUVWXYZ'' ''abcdefghijklmnopqrstuvwxyz'') c of
        None \<Rightarrow> c | Some d \<Rightarrow> d)"

definition upper_char :: "char \<Rightarrow> char" where
  "upper_char c =
     (case map_of (zip ''abcdefghijklmnopqrstuvwxyz'' ''ABCDEFGHIJKLMNOPQRSTUVWXYZ'') c of
        None \<Rightarrow> c | Some d \<Rightarrow> d)"

definition lower :: "string \<Rightarrow> string" where
  "lower s = map lower_char s"

definition upper :: "string \<Rightarrow> string" where
  "upper s = map upper_char s"

text \<open>\<^verbatim>\<open>"\n".join(lines)\<close>\<close>

fun join_lines :: "string list \<Rightarrow> string" where
  "join_lines [] = []"
| "join_lines [l] = l"
| "join_lines (l # m # ls) = l @ ''\<newline>'' @ join_lines (m # ls)"

subsection \<open>Exceptions, replies, the trace\<close>

text \<open>
  The exception classes the program tells apart. \<open>ConnectionError\<close> and \<open>TimeoutError\<close>
  are the two classes of the first \<^verbatim>\<open>except\<close> clause of \<^verbatim>\<open>process_message\<close>;
  \<open>KeyboardInterrupt\<close> is not a subclass of \<^verbatim>\<open>Exception\<close>, so \<^verbatim>\<open>except Exception\<close>
  does not catch it; \<open>EOFError\<close> is what \<^verbatim>\<open>input()\<close> raises at the end of the input;
  \<open>AttributeError\<close> is what \<^verbatim>\<open>text.splitlines()\<close> raises in \<^verbatim>\<open>format_text_block\<close> when the
  reply's message is not a string; \<open>OtherException\<close> stands for every other subclass of
  \<^verbatim>\<open>Exception\<close>.
\<close>

datatype exn = ConnectionError | TimeoutError | EOFError | AttributeError
  | OtherException | KeyboardInterrupt

definition transient :: "exn \<Rightarrow> bool" where
  "transient e = (e = ConnectionError \<or> e = TimeoutError)"

definition is_Exception :: "exn \<Rightarrow> bool" where
  "is_Exception e = (e \<noteq> KeyboardInterrupt)"

text \<open>
  A reply is typed \<^verbatim>\<open>Dict[str, Any]\<close>: it may fail to be a dict, and the value under
  \<^verbatim>\<open>"message"\<close> may fail to be a string.
\<close>

datatype pyval = PStr string | PNonStr

datatype response = Dict "(string \<times> pyval) list" | NotDict

datatype api_result = Returns response | Raises exn

text \<open>
  The remote service is scripted: \<open>api k\<close> is what the \<open>k\<close>-th call of \<^verbatim>\<open>api.prompt\<close>
  (counting from 0) does.
\<close>

type_synonym api = "nat \<Rightarrow> api_result"

datatype level = WARNING | ERROR

datatype log_record =
    Retrying exn int int      \<comment> \<open>"Error occurred: {e}. Retrying... Attempt {attempt}/{retries}."\<close>
  | UnexpectedError exn       \<comment> \<open>"Unexpected error occurred: {e}"\<close>
  | NoValidResponse int       \<comment> \<open>"Unable to obtain a valid response after {retries} attempts."\<close>
  | UnableToStart exn         \<comment> \<open>"Unable to start a new conversation. Exception details: {e}"\<close>

datatype event =
    Clear                     \<comment> \<open>\<^verbatim>\<open>clear_screen()\<close>\<close>
  | Instructions              \<comment> \<open>\<^verbatim>\<open>display_instructions()\<close>: the banner and the list of commands\<close>
  | Print string              \<comment> \<open>\<^verbatim>\<open>console.print(text)\<close> and \<^verbatim>\<open>print()\<close>; the style is left out\<close>
  | PrintReply string         \<comment> \<open>the reply's message, printed through \<^verbatim>\<open>format_text_block\<close>\<close>
  | Log level log_record      \<comment> \<open>\<^verbatim>\<open>logging.warning\<close> / \<^verbatim>\<open>logging.error\<close>\<close>
  | Sleep nat                 \<comment> \<open>\<^verbatim>\<open>time.sleep(delay)\<close>\<close>
  | ApiPrompt string bool     \<comment> \<open>\<^verbatim>\<open>api.prompt(message)\<close>; the flag: \<^verbatim>\<open>new_conversation=True\<close> was passed\<close>

text \<open>One item of the terminal input: a line, or Ctrl-C while \<^verbatim>\<open>input()\<close> waits.\<close>

datatype input = Line string | Interrupt

record world =
  stdin :: "input list"
  calls :: nat
  out :: "event list"

definition emit :: "event \<Rightarrow> world \<Rightarrow> world" where
  "emit e w = w\<lparr>out := out w @ [e]\<rparr>"

definition api_prompt :: "api \<Rightarrow> string \<Rightarrow> bool \<Rightarrow> world \<Rightarrow> api_result \<times> world" where
  "api_prompt api message new_conversation w =
     (api (calls w),
      w\<lparr>calls := Suc (calls w), out := out w @ [ApiPrompt message new_conversation]\<rparr>)"

text \<open>\<^verbatim>\<open>input()\<close>: the next line, \<open>EOFError\<close> when there is none, \<open>KeyboardInterrupt\<close> on Ctrl-C.\<close>

definition input_line :: "world \<Rightarrow> (exn + string) \<times> world" where
  "input_line w =
     (case stdin w of
        [] \<Rightarrow> (Inl EOFError, w)
      | Interrupt # rest \<Rightarrow> (Inl KeyboardInterrupt, w\<lparr>stdin := rest\<rparr>)
      | Line l # rest \<Rightarrow> (Inr l, w\<lparr>stdin := rest\<rparr>))"

section \<open>Input\<close>

definition get_message :: "string \<Rightarrow> world \<Rightarrow> (exn + string) \<times> world" where
  "get_message prompt w =
     (case input_line (emit (Print prompt) w) of
        (Inl e, w') \<Rightarrow> (Inl e, w')
      | (Inr l, w') \<Rightarrow> (Inr (strip l), w'))"

text \<open>The \<^verbatim>\<open>while True\<close> loop of \<^verbatim>\<open>get_multiline_message\<close>, with \<open>lines\<close> as accumulator.\<close>

fun read_lines :: "string list \<Rightarrow> input list \<Rightarrow> (exn + string list) \<times> input list" where
  "read_lines lines [] = (Inl EOFError, [])"
| "read_lines lines (Interrupt # rest) = (Inl KeyboardInterrupt, rest)"
| "read_lines lines (Line l # rest) =
     (if upper (strip l) = ''END'' then (Inr lines, rest)
      else read_lines (lines @ [l]) rest)"

definition MULTILINE_PROMPT :: string where
  "MULTILINE_PROMPT = ''Your message (send with 'END' on a new line): ''"

definition get_multiline_message :: "world \<Rightarrow> (exn + string) \<times> world" where
  "get_multiline_message w =
     (let w1 = emit (Print MULTILINE_PROMPT) w in
      case read_lines [] (stdin w1) of
        (Inl e, rest) \<Rightarrow> (Inl e, w1\<lparr>stdin := rest\<rparr>)
      | (Inr lines, rest) \<Rightarrow> (Inr (strip (join_lines lines)), w1\<lparr>stdin := rest\<rparr>))"

section \<open>Rendering a reply\<close>

definition UNEXPECTED_FORMAT :: string where
  "UNEXPECTED_FORMAT = ''Unexpected response format.''"

text \<open>
  \<^verbatim>\<open>handle_response\<close>. \<^verbatim>\<open>format_text_block\<close> wraps the message to the terminal's width; the
  trace records the message it is given. A message that is not a string makes
  \<^verbatim>\<open>text.splitlines()\<close> raise before anything is printed.
\<close>

definition handle_response :: "response \<Rightarrow> world \<Rightarrow> (exn + unit) \<times> world" where
  "handle_response response w =
     (case response of
        Dict kvs \<Rightarrow>
          (case map_of kvs ''message'' of
             Some (PStr message) \<Rightarrow>
               (Inr (), emit (Print []) (emit (PrintReply message) (emit (Print []) w)))
           | Some PNonStr \<Rightarrow> (Inl AttributeError, w)
           | None \<Rightarrow> (Inr (), emit (Print UNEXPECTED_FORMAT) w))
      | NotDict \<Rightarrow> (Inr (), emit (Print UNEXPECTED_FORMAT) w))"

section \<open>Delivery with retries\<close>

text \<open>
  \<^verbatim>\<open>process_message\<close> returns nothing; \<open>outcome\<close> names the exit its loop takes:
  \<open>Success\<close> is the \<^verbatim>\<open>break\<close> after \<^verbatim>\<open>handle_response\<close>, \<open>Fatal\<close> the \<^verbatim>\<open>break\<close> of the
  \<^verbatim>\<open>except Exception\<close> clause, \<open>Exhausted\<close> the \<^verbatim>\<open>else\<close> clause of the \<^verbatim>\<open>for\<close>.
\<close>

datatype outcome = Success response | Fatal exn | Exhausted

text \<open>The body of the \<^verbatim>\<open>try\<close>: the send, then the rendering of what it returned.\<close>

definition send_and_render :: "api \<Rightarrow> string \<Rightarrow> world \<Rightarrow> (exn + response) \<times> world" where
  "send_and_render api message w =
     (case api_prompt api message False w of
        (Raises e, w1) \<Rightarrow> (Inl e, w1)
      | (Returns response, w1) \<Rightarrow>
          (case handle_response response w1 of
             (Inl e, w2) \<Rightarrow> (Inl e, w2)
           | (Inr _, w2) \<Rightarrow> (Inr response, w2)))"

text \<open>
  The \<^verbatim>\<open>for attempt in range(1, retries + 1)\<close> loop over the attempts still to make.
  \<open>delay\<close> is a natural number: \<^verbatim>\<open>time.sleep\<close> of a negative number is outside the model.
\<close>

fun attempts_loop ::
  "api \<Rightarrow> string \<Rightarrow> int \<Rightarrow> nat \<Rightarrow> int list \<Rightarrow> world \<Rightarrow> (exn + outcome) \<times> world" where
  "attempts_loop api message retries delay [] w =
     (Inr Exhausted, emit (Log ERROR (NoValidResponse retries)) w)"
| "attempts_loop api message retries delay (attempt # rest) w =
     (case send_and_render api message w of
        (Inr response, w1) \<Rightarrow> (Inr (Success response), w1)
      | (Inl e, w1) \<Rightarrow>
          if transient e then
            attempts_loop api message retries delay rest
              (emit (Sleep delay) (emit (Log WARNING (Retrying e attempt retries)) w1))
          else if is_Exception e then
            (Inr (Fatal e), emit (Log ERROR (UnexpectedError e)) w1)
          else (Inl e, w1))"

definition process_message ::
  "api \<Rightarrow> string \<Rightarrow> int \<Rightarrow> nat \<Rightarrow> world \<Rightarrow> (exn + outcome) \<times> world" where
  "process_message api message retries delay w =
     attempts_loop api message retries delay [1..retries] w"

text \<open>The number of \<^verbatim>\<open>api.prompt\<close> calls in a trace.\<close>

fun is_send :: "event \<Rightarrow> bool" where
  "is_send (ApiPrompt m n) = True"
| "is_send e = False"

definition sends :: "event list \<Rightarrow> nat" where
  "sends es = length (filter is_send es)"

text \<open>The number of greetings in a trace: the calls made with \<^verbatim>\<open>new_conversation=True\<close>.\<close>

fun is_greeting :: "event \<Rightarrow> bool" where
  "is_greeting (ApiPrompt m n) = n"
| "is_greeting e = False"

definition greetings :: "event list \<Rightarrow> nat" where
  "greetings es = length (filter is_greeting es)"

section \<open>The conversation\<close>

definition load_instructions :: string where
  "load_instructions =
     ''Let's play a game. These are the rules: '' @
     ''Your name is Hax. '' @
     ''You are a sensei to the unguided grasshoppers of the cyber world. '' @
     ''Your duty is to welcome young pupils and show them the way. '' @
     ''You can only use written text and must provide all lesson material locally. '' @
     ''You are the dojo, the sensei, the vast wealth of knowledge. You are the way! '' @
     ''IMPORTANT: Do not recommend anything outside your dojo. Use subtle emojis. '' @
     ''Format your responses for cli. ''"

definition STARTING :: string where
  "STARTING = ''Starting a new conversation...\<newline>''"

text \<open>
  \<^verbatim>\<open>start_new_conversation\<close>: whatever \<^verbatim>\<open>Exception\<close> the greeting raises is logged and
  swallowed; only an exception outside \<^verbatim>\<open>Exception\<close> leaves the function.
\<close>

definition start_new_conversation :: "api \<Rightarrow> world \<Rightarrow> (exn + unit) \<times> world" where
  "start_new_conversation api w =
     (let w1 = emit (Print STARTING) (emit Instructions (emit Clear w)) in
      case (case api_prompt api load_instructions True w1 of
              (Raises e, w2) \<Rightarrow> (Inl e, w2)
            | (Returns response, w2) \<Rightarrow> handle_response response w2) of
        (Inr u, w3) \<Rightarrow> (Inr (), w3)
      | (Inl e, w3) \<Rightarrow>
          if is_Exception e then (Inr (), emit (Log ERROR (UnableToStart e)) w3)
          else (Inl e, w3))"

text \<open>The two local variables of \<^verbatim>\<open>flow_conversation\<close>.\<close>

record session =
  conversation_started :: bool
  multiline_mode :: bool

text \<open>How one pass through the body of \<^verbatim>\<open>while True\<close> ends.\<close>

datatype control = Continue | Break

definition MESSAGE_PROMPT :: string where
  "MESSAGE_PROMPT = ''Your message: ''"

definition EXIT_PROMPT :: string where
  "EXIT_PROMPT = ''Are you sure you want to exit? (yes/no): ''"

definition SWITCHED :: string where
  "SWITCHED = ''Switched to multiline mode. Type your message and end with 'END'.''"

definition ENDING :: string where
  "ENDING = ''Ending the conversation...\<newline>''"

definition INVALID_INPUT :: string where
  "INVALID_INPUT = ''Invalid input. Please type a valid message or command.''"

definition INTERRUPTED :: string where
  "INTERRUPTED =
     ''\<newline>[bold red]Keyboard interrupt detected. Exiting the conversation...[/bold red]''"

text \<open>Lines 126 to 130: the greeting, when the conversation has not been started.\<close>

definition ensure_started :: "api \<Rightarrow> session \<Rightarrow> world \<Rightarrow> (exn + unit) \<times> session \<times> world" where
  "ensure_started api s w =
     (if \<not> conversation_started s then
        (case start_new_conversation api (emit Instructions (emit Clear w)) of
           (Inl e, w1) \<Rightarrow> (Inl e, s, w1)
         | (Inr u, w1) \<Rightarrow> (Inr (), s\<lparr>conversation_started := True\<rparr>, w1))
      else (Inr (), s, w))"

text \<open>
  Lines 142 to 152: what is done with \<open>message\<close>, whichever input mode produced it.
\<close>

definition dispatch ::
  "api \<Rightarrow> int \<Rightarrow> nat \<Rightarrow> string \<Rightarrow> session \<Rightarrow> world \<Rightarrow> (exn + control) \<times> session \<times> world" where
  "dispatch api retries delay message s w =
     (if lower message = ''exit'' then
        (case get_message EXIT_PROMPT w of
           (Inl e, w1) \<Rightarrow> (Inl e, s, w1)
         | (Inr answer, w1) \<Rightarrow>
             if lower answer = ''yes'' then (Inr Break, s, emit (Print ENDING) (emit Clear w1))
             else (Inr Continue, s, w1))
      else if lower message = ''newchat'' then
        (Inr Continue, s\<lparr>conversation_started := False\<rparr>, w)
      else if message \<noteq> [] then
        (case process_message api message retries delay w of
           (Inl e, w1) \<Rightarrow> (Inl e, s, w1)
         | (Inr outcome, w1) \<Rightarrow> (Inr Continue, s, w1))
      else (Inr Continue, s, emit (Print INVALID_INPUT) w))"

text \<open>Lines 132 to 140, followed by the dispatch: the body of the \<^verbatim>\<open>try\<close> after the greeting.\<close>

definition read_and_dispatch ::
  "api \<Rightarrow> int \<Rightarrow> nat \<Rightarrow> session \<Rightarrow> world \<Rightarrow> (exn + control) \<times> session \<times> world" where
  "read_and_dispatch api retries delay s w =
     (if \<not> multiline_mode s then
        (case get_message MESSAGE_PROMPT w of
           (Inl e, w1) \<Rightarrow> (Inl e, s, w1)
         | (Inr message, w1) \<Rightarrow>
             if lower message = ''multiline'' then
               (Inr Continue, s\<lparr>multiline_mode := True\<rparr>, emit (Print SWITCHED) w1)
             else dispatch api retries delay message s w1)
      else
        (case get_multiline_message w of
           (Inl e, w1) \<Rightarrow> (Inl e, s, w1)
         | (Inr message, w1) \<Rightarrow>
             dispatch api retries delay message (s\<lparr>multiline_mode := False\<rparr>) w1))"

text \<open>
  The \<^verbatim>\<open>except KeyboardInterrupt\<close> clause around the body of the loop: the interrupt
  prints a notice and breaks; any other exception leaves \<^verbatim>\<open>flow_conversation\<close>.
\<close>

definition except_KeyboardInterrupt ::
  "(exn + control) \<times> session \<times> world \<Rightarrow> (exn + control) \<times> session \<times> world" where
  "except_KeyboardInterrupt r =
     (case r of
        (Inl e, s, w) \<Rightarrow>
          if e = KeyboardInterrupt then (Inr Break, s, emit (Print INTERRUPTED) w)
          else (Inl e, s, w)
      | (Inr c, s, w) \<Rightarrow> (Inr c, s, w))"

text \<open>One pass through the body of \<^verbatim>\<open>while True\<close>.\<close>

definition loop_body ::
  "api \<Rightarrow> int \<Rightarrow> nat \<Rightarrow> session \<Rightarrow> world \<Rightarrow> (exn + control) \<times> session \<times> world" where
  "loop_body api retries delay s w =
     except_KeyboardInterrupt
       (case ensure_started api s w of
          (Inl e, s1, w1) \<Rightarrow> (Inl e, s1, w1)
        | (Inr u, s1, w1) \<Rightarrow> read_and_dispatch api retries delay s1 w1)"

text \<open>
  The \<^verbatim>\<open>while True\<close> loop. Every pass that continues has consumed at least one item of
  the input, so on a finite input the loop ends: by \<^verbatim>\<open>break\<close>, or by the \<open>EOFError\<close> of
  \<^verbatim>\<open>input()\<close>.
\<close>

function flow_loop ::
  "api \<Rightarrow> int \<Rightarrow> nat \<Rightarrow> session \<Rightarrow> world \<Rightarrow> (exn + unit) \<times> session \<times> world" where
  "flow_loop api retries delay s w =
     (case loop_body api retries delay s w of
        (Inl e, s', w') \<Rightarrow> (Inl e, s', w')
      | (Inr Break, s', w') \<Rightarrow> (Inr (), s', w')
      | (Inr Continue, s', w') \<Rightarrow> flow_loop api retries delay s' w')"
  by pat_completeness auto

text \<open>\<^verbatim>\<open>flow_conversation\<close>: the loop entered with both variables false.\<close>

definition flow_conversation :: "api \<Rightarrow> int \<Rightarrow> nat \<Rightarrow> world \<Rightarrow> (exn + unit) \<times> session \<times> world" where
  "flow_conversation api retries delay w =
     flow_loop api retries delay \<lparr>conversation_started = False, multiline_mode = False\<rparr> w"

section \<open>What each function does to the environment\<close>

lemma stdin_emit [simp]: "stdin (emit e w) = stdin w"
  by (simp add: emit_def)

lemma calls_emit [simp]: "calls (emit e w) = calls w"
  by (simp add: emit_def)

lemma out_emit [simp]: "out (emit e w) = out w @ [e]"
  by (simp add: emit_def)

lemma sends_Nil [simp]: "sends [] = 0"
  by (simp add: sends_def)

lemma sends_Cons [simp]: "sends (e # es) = (if is_send e then 1 else 0) + sends es"
  by (simp add: sends_def)

lemma sends_append [simp]: "sends (xs @ ys) = sends xs + sends ys"
  by (simp add: sends_def)

subsection \<open>Only reading consumes the input\<close>

lemma stdin_input_line: "input_line w = (r, w') \<Longrightarrow> length (stdin w') \<le> length (stdin w)"
  by (auto simp: input_line_def split: list.splits input.splits)

lemma stdin_input_line_Inr:
  "input_line w = (Inr l, w') \<Longrightarrow> length (stdin w') < length (stdin w)"
  by (auto simp: input_line_def split: list.splits input.splits)

lemma stdin_get_message: "get_message p w = (r, w') \<Longrightarrow> length (stdin w') \<le> length (stdin w)"
  by (auto simp: get_message_def split: prod.splits sum.splits dest: stdin_input_line)

lemma stdin_get_message_Inr:
  "get_message p w = (Inr m, w') \<Longrightarrow> length (stdin w') < length (stdin w)"
  by (auto simp: get_message_def split: prod.splits sum.splits dest: stdin_input_line_Inr)

lemma read_lines_shorter: "read_lines acc xs = (Inr ls, rest) \<Longrightarrow> length rest < length xs"
proof (induction acc xs rule: read_lines.induct)
  case (3 lines l rest')
  then show ?case by (auto split: if_splits)
qed simp_all

lemma stdin_get_multiline_message_Inr:
  "get_multiline_message w = (Inr m, w') \<Longrightarrow> length (stdin w') < length (stdin w)"
  by (auto simp: get_multiline_message_def Let_def split: prod.splits sum.splits
           dest: read_lines_shorter)

lemma stdin_handle_response: "handle_response r w = (x, w') \<Longrightarrow> stdin w' = stdin w"
  by (auto simp: handle_response_def split: response.splits option.splits pyval.splits)

lemma stdin_send_and_render: "send_and_render api m w = (x, w') \<Longrightarrow> stdin w' = stdin w"
  by (auto simp: send_and_render_def api_prompt_def
           split: api_result.splits prod.splits sum.splits dest: stdin_handle_response)

lemma stdin_attempts_loop:
  "attempts_loop api m retries d as w = (x, w') \<Longrightarrow> stdin w' = stdin w"
proof (induction as arbitrary: w)
  case Nil
  then show ?case by auto
next
  case (Cons a as)
  then show ?case
    by (auto split: prod.splits sum.splits if_splits dest!: stdin_send_and_render)
qed

lemma stdin_process_message:
  "process_message api m retries d w = (x, w') \<Longrightarrow> stdin w' = stdin w"
  unfolding process_message_def by (rule stdin_attempts_loop)

lemma stdin_start_new_conversation:
  "start_new_conversation api w = (x, w') \<Longrightarrow> stdin w' = stdin w"
  by (auto simp: start_new_conversation_def Let_def api_prompt_def
           split: api_result.splits prod.splits sum.splits if_splits
           dest!: stdin_handle_response)

lemma stdin_ensure_started:
  "ensure_started api s w = (x, s', w') \<Longrightarrow> stdin w' = stdin w"
  by (auto simp: ensure_started_def split: prod.splits sum.splits if_splits
           dest!: stdin_start_new_conversation)

lemma stdin_dispatch:
  "dispatch api retries d m s w = (x, s', w') \<Longrightarrow> length (stdin w') \<le> length (stdin w)"
  by (auto simp: dispatch_def split: prod.splits sum.splits if_splits
           dest!: stdin_get_message stdin_process_message)

lemma stdin_read_and_dispatch:
  "read_and_dispatch api retries d s w = (Inr c, s', w') \<Longrightarrow>
   length (stdin w') < length (stdin w)"
  by (auto simp: read_and_dispatch_def split: prod.splits sum.splits if_splits
           dest!: stdin_get_message_Inr stdin_get_multiline_message_Inr stdin_dispatch)

lemma stdin_loop_body:
  "loop_body api retries d s w = (Inr Continue, s', w') \<Longrightarrow>
   length (stdin w') < length (stdin w)"
  by (auto simp: loop_body_def except_KeyboardInterrupt_def
           split: prod.splits sum.splits if_splits
           dest!: stdin_ensure_started stdin_read_and_dispatch)

termination flow_loop
  apply (relation "measure (\<lambda>(api, retries, delay, s, w). length (stdin w))")
   apply simp
  apply (auto dest: stdin_loop_body [OF sym])
  done

section \<open>Delivery\<close>

lemma upto_1_3: "[1..(3::int)] = [1, 2, 3]"
  by (simp add: upto_rec1)

text \<open>
  C3. Against a service whose every call raises \<open>ConnectionError\<close> or \<open>TimeoutError\<close>,
  \<open>process_message\<close> with \<open>retries = 3\<close> sends exactly three times, each failure logged as a
  warning and followed by the sleep, and leaves through the \<^verbatim>\<open>else\<close> of the loop: the
  outcome is \<open>Exhausted\<close>, logged once at level \<open>ERROR\<close> with a record of its own.
\<close>

theorem always_transient_exhausts:
  assumes "\<forall>k. api k = Raises (exc k) \<and> transient (exc k)"
  shows "process_message api message 3 delay w =
           (Inr Exhausted,
            w\<lparr>calls := calls w + 3,
              out := out w @
                [ApiPrompt message False, Log WARNING (Retrying (exc (calls w)) 1 3), Sleep delay,
                 ApiPrompt message False, Log WARNING (Retrying (exc (calls w + 1)) 2 3), Sleep delay,
                 ApiPrompt message False, Log WARNING (Retrying (exc (calls w + 2)) 3 3), Sleep delay,
                 Log ERROR (NoValidResponse 3)]\<rparr>)
         \<and> sends (out (snd (process_message api message 3 delay w))) = sends (out w) + 3"
proof -
  have step: "send_and_render api message v =
      (Inl (exc (calls v)), v\<lparr>calls := Suc (calls v), out := out v @ [ApiPrompt message False]\<rparr>)"
    for v
    using assms by (simp add: send_and_render_def api_prompt_def)
  have tr: "transient (exc k)" for k
    using assms by simp
  have eq: "process_message api message 3 delay w =
           (Inr Exhausted,
            w\<lparr>calls := calls w + 3,
              out := out w @
                [ApiPrompt message False, Log WARNING (Retrying (exc (calls w)) 1 3), Sleep delay,
                 ApiPrompt message False, Log WARNING (Retrying (exc (calls w + 1)) 2 3), Sleep delay,
                 ApiPrompt message False, Log WARNING (Retrying (exc (calls w + 2)) 3 3), Sleep delay,
                 Log ERROR (NoValidResponse 3)]\<rparr>)"
    by (simp add: process_message_def upto_1_3 step tr emit_def)
  show ?thesis unfolding eq by simp
qed

theorem always_transient_exhausts_witness:
  "process_message (\<lambda>k. Raises ConnectionError) ''hello'' 3 2 \<lparr>stdin = [], calls = 0, out = []\<rparr> =
     (Inr Exhausted,
      \<lparr>stdin = [], calls = 3,
       out = [ApiPrompt ''hello'' False, Log WARNING (Retrying ConnectionError 1 3), Sleep 2,
              ApiPrompt ''hello'' False, Log WARNING (Retrying ConnectionError 2 3), Sleep 2,
              ApiPrompt ''hello'' False, Log WARNING (Retrying ConnectionError 3 3), Sleep 2,
              Log ERROR (NoValidResponse 3)]\<rparr>)"
  using always_transient_exhausts [of "\<lambda>k. Raises ConnectionError" "\<lambda>k. ConnectionError"
      "''hello''" 2 "\<lparr>stdin = [], calls = 0, out = []\<rparr>"]
  by (simp add: transient_def)

text \<open>
  C4. Whatever the message and whatever \<open>retries \<ge> 1\<close>: when the first call raises an
  \<^verbatim>\<open>Exception\<close> that is neither \<open>ConnectionError\<close> nor \<open>TimeoutError\<close>, \<open>process_message\<close>
  sends once, logs the error and leaves the loop at once with outcome \<open>Fatal\<close>; no further
  attempt is made and nothing sleeps.
\<close>

theorem fatal_first_attempt:
  assumes "1 \<le> retries" and "api (calls w) = Raises e"
    and "is_Exception e" and "\<not> transient e"
  shows "process_message api message retries delay w =
           (Inr (Fatal e),
            w\<lparr>calls := Suc (calls w),
              out := out w @ [ApiPrompt message False, Log ERROR (UnexpectedError e)]\<rparr>)
         \<and> sends (out (snd (process_message api message retries delay w))) = sends (out w) + 1"
proof -
  have "[1..retries] = 1 # [2..retries]"
    using assms(1) by (simp add: upto_rec1)
  then have eq: "process_message api message retries delay w =
           (Inr (Fatal e),
            w\<lparr>calls := Suc (calls w),
              out := out w @ [ApiPrompt message False, Log ERROR (UnexpectedError e)]\<rparr>)"
    using assms(2-4)
    by (simp add: process_message_def send_and_render_def api_prompt_def emit_def)
  show ?thesis unfolding eq by simp
qed

theorem fatal_first_attempt_witness:
  "(1::int) \<le> 3 \<and> is_Exception OtherException \<and> \<not> transient OtherException \<and>
   process_message (\<lambda>k. Raises OtherException) ''hello'' 3 2 \<lparr>stdin = [], calls = 0, out = []\<rparr> =
     (Inr (Fatal OtherException),
      \<lparr>stdin = [], calls = 1,
       out = [ApiPrompt ''hello'' False, Log ERROR (UnexpectedError OtherException)]\<rparr>)"
  using fatal_first_attempt [of 3 "\<lambda>k. Raises OtherException" "\<lparr>stdin = [], calls = 0, out = []\<rparr>"
      OtherException "''hello''" 2]
  by (simp add: transient_def is_Exception_def)

text \<open>
  C5. When the first call raises \<open>ConnectionError\<close> (or \<open>TimeoutError\<close>) and the second
  returns, \<open>process_message\<close> with \<open>retries = 3\<close> sends exactly twice. When the rendering
  of the reply returns normally, the loop is left by the \<^verbatim>\<open>break\<close> after
  \<^verbatim>\<open>handle_response\<close>: the outcome is \<open>Success\<close> with that reply and the environment is
  the one \<open>handle_response\<close> leaves, so nothing is sent, logged or slept after the success.
\<close>

theorem success_on_second_attempt:
  assumes "api (calls w) = Raises e" and "transient e"
    and "api (Suc (calls w)) = Returns r"
  shows "sends (out (snd (process_message api message 3 delay w))) = sends (out w) + 2
       \<and> calls (snd (process_message api message 3 delay w)) = calls w + 2
       \<and> (\<forall>w'. handle_response r
                 (w\<lparr>calls := calls w + 2,
                    out := out w @ [ApiPrompt message False, Log WARNING (Retrying e 1 3),
                                    Sleep delay, ApiPrompt message False]\<rparr>) = (Inr (), w')
              \<longrightarrow> process_message api message 3 delay w = (Inr (Success r), w'))"
  using assms
  by (auto simp: process_message_def upto_1_3 send_and_render_def api_prompt_def emit_def
        handle_response_def transient_def is_Exception_def
      split: response.splits option.splits pyval.splits)

theorem success_on_second_attempt_witness:
  "transient ConnectionError \<and>
   process_message (\<lambda>k. if k = 0 then Raises ConnectionError else Returns (Dict [(''message'', PStr ''hi'')]))
       ''hello'' 3 2 \<lparr>stdin = [], calls = 0, out = []\<rparr> =
     (Inr (Success (Dict [(''message'', PStr ''hi'')])),
      \<lparr>stdin = [], calls = 2,
       out = [ApiPrompt ''hello'' False, Log WARNING (Retrying ConnectionError 1 3), Sleep 2,
              ApiPrompt ''hello'' False, Print [], PrintReply ''hi'', Print []]\<rparr>)"
  using success_on_second_attempt [of
      "\<lambda>k. if k = 0 then Raises ConnectionError else Returns (Dict [(''message'', PStr ''hi'')])"
      "\<lparr>stdin = [], calls = 0, out = []\<rparr>" ConnectionError "Dict [(''message'', PStr ''hi'')]"
      "''hello''" 2]
  by (simp add: transient_def handle_response_def emit_def)

text \<open>
  C9. A call that returns something that is not a dict, or a dict without the key
  \<^verbatim>\<open>"message"\<close>: \<open>handle_response\<close> prints the "unexpected format" notice and returns
  normally; the attempt in which this happens, whichever it is, ends the loop by the
  \<^verbatim>\<open>break\<close> after \<^verbatim>\<open>handle_response\<close>, with outcome \<open>Success\<close> (neither \<open>Fatal\<close> nor
  \<open>Exhausted\<close>), nothing logged and no sleep.
\<close>

theorem unexpected_format_completes:
  assumes "api (calls w) = Returns r"
    and "r = NotDict \<or> (\<exists>kvs. r = Dict kvs \<and> map_of kvs ''message'' = None)"
  shows "handle_response r v = (Inr (), v\<lparr>out := out v @ [Print UNEXPECTED_FORMAT]\<rparr>)
       \<and> attempts_loop api message retries delay (attempt # rest) w =
           (Inr (Success r),
            w\<lparr>calls := Suc (calls w),
              out := out w @ [ApiPrompt message False, Print UNEXPECTED_FORMAT]\<rparr>)
       \<and> (1 \<le> retries \<longrightarrow>
            process_message api message retries delay w =
              (Inr (Success r),
               w\<lparr>calls := Suc (calls w),
                 out := out w @ [ApiPrompt message False, Print UNEXPECTED_FORMAT]\<rparr>))"
proof -
  have hr: "handle_response r v = (Inr (), v\<lparr>out := out v @ [Print UNEXPECTED_FORMAT]\<rparr>)" for v
    using assms(2) by (auto simp: handle_response_def emit_def)
  have al: "attempts_loop api message retries delay (a # as) w =
           (Inr (Success r),
            w\<lparr>calls := Suc (calls w),
              out := out w @ [ApiPrompt message False, Print UNEXPECTED_FORMAT]\<rparr>)" for a as
    using assms(1) by (simp add: send_and_render_def api_prompt_def hr)
  have "[1..retries] = 1 # [2..retries]" if "1 \<le> retries"
    using that by (simp add: upto_rec1)
  then show ?thesis
    using hr al by (simp add: process_message_def)
qed

theorem unexpected_format_completes_witness:
  "process_message (\<lambda>k. Returns (Dict [(''text'', PStr ''hi'')])) ''hello'' 3 2
       \<lparr>stdin = [], calls = 0, out = []\<rparr> =
     (Inr (Success (Dict [(''text'', PStr ''hi'')])),
      \<lparr>stdin = [], calls = 1, out = [ApiPrompt ''hello'' False, Print UNEXPECTED_FORMAT]\<rparr>)
   \<and> process_message (\<lambda>k. Returns NotDict) ''hello'' 3 2 \<lparr>stdin = [], calls = 0, out = []\<rparr> =
     (Inr (Success NotDict),
      \<lparr>stdin = [], calls = 1, out = [ApiPrompt ''hello'' False, Print UNEXPECTED_FORMAT]\<rparr>)"
  using unexpected_format_completes [of "\<lambda>k. Returns (Dict [(''text'', PStr ''hi'')])"
      "\<lparr>stdin = [], calls = 0, out = []\<rparr>" "Dict [(''text'', PStr ''hi'')]" _ "''hello''" 3 2]
    unexpected_format_completes [of "\<lambda>k. Returns NotDict"
      "\<lparr>stdin = [], calls = 0, out = []\<rparr>" NotDict _ "''hello''" 3 2]
  by simp

section \<open>Input modes and the pass through the loop\<close>

subsection \<open>What \<open>strip\<close> removes\<close>

lemma strip_decompose:
  "\<exists>pre suf. s = pre @ strip s @ suf \<and> (\<forall>c\<in>set pre. is_space c) \<and> (\<forall>c\<in>set suf. is_space c)"
proof -
  define x where "x = dropWhile is_space s"
  have 1: "s = takeWhile is_space s @ x"
    by (simp add: x_def)
  have "rev (takeWhile is_space (rev x) @ dropWhile is_space (rev x)) = x"
    by (simp only: takeWhile_dropWhile_id rev_rev_ident)
  then have "rev (dropWhile is_space (rev x)) @ rev (takeWhile is_space (rev x)) = x"
    by (simp only: rev_append)
  then have 2: "x = strip s @ rev (takeWhile is_space (rev x))"
    by (simp add: strip_def rstrip_def lstrip_def x_def)
  have 3: "\<forall>c\<in>set (takeWhile is_space s). is_space c"
    by (auto dest: set_takeWhileD)
  have 4: "\<forall>c\<in>set (rev (takeWhile is_space (rev x))). is_space c"
    by (auto dest: set_takeWhileD)
  have "s = takeWhile is_space s @ strip s @ rev (takeWhile is_space (rev x))"
    using 1 2 by simp
  with 3 4 show ?thesis by blast
qed

lemma strip_edges:
  assumes "strip s \<noteq> []"
  shows "\<not> is_space (hd (strip s)) \<and> \<not> is_space (last (strip s))"
proof -
  define x where "x = dropWhile is_space s"
  define y where "y = dropWhile is_space (rev x)"
  have ss: "strip s = rev y"
    by (simp add: strip_def rstrip_def lstrip_def x_def y_def)
  with assms have y: "y \<noteq> []" by simp
  then have x: "x \<noteq> []" by (auto simp: y_def)
  have "\<not> is_space (hd y)"
    using y unfolding y_def by (rule hd_dropWhile)
  then have l: "\<not> is_space (last (strip s))"
    using y by (simp add: ss last_rev)
  have "rev x = takeWhile is_space (rev x) @ y"
    by (simp add: y_def)
  then have "last (rev x) = last y"
    using y by (metis last_appendR)
  then have "last y = hd x"
    using x by (simp add: last_rev)
  moreover have "\<not> is_space (hd x)"
    using x unfolding x_def by (rule hd_dropWhile)
  ultimately have "\<not> is_space (hd (strip s))"
    using y by (simp add: ss hd_rev)
  with l show ?thesis by simp
qed

subsection \<open>A block of lines closed by the sentinel\<close>

lemma read_lines_block:
  "\<forall>l\<in>set ls. upper (strip l) \<noteq> ''END'' \<Longrightarrow> upper (strip e) = ''END'' \<Longrightarrow>
   read_lines acc (map Line ls @ Line e # rest) = (Inr (acc @ ls), rest)"
  by (induction ls arbitrary: acc) simp_all

lemma get_multiline_message_block:
  assumes "\<forall>l\<in>set ls. upper (strip l) \<noteq> ''END''" and "upper (strip e) = ''END''"
    and "stdin w = map Line ls @ Line e # rest"
  shows "get_multiline_message w =
           (Inr (strip (join_lines ls)), w\<lparr>stdin := rest, out := out w @ [Print MULTILINE_PROMPT]\<rparr>)"
  using assms by (simp add: get_multiline_message_def read_lines_block emit_def)

lemma ensure_started_started:
  "conversation_started s \<Longrightarrow> ensure_started api s w = (Inr (), s, w)"
  by (simp add: ensure_started_def)

lemma loop_body_started:
  "conversation_started s \<Longrightarrow>
   loop_body api retries delay s w =
     except_KeyboardInterrupt (read_and_dispatch api retries delay s w)"
  by (simp add: loop_body_def ensure_started_started)

lemma loop_body_multiline_block:
  assumes "conversation_started s" and "multiline_mode s"
    and "\<forall>l\<in>set ls. upper (strip l) \<noteq> ''END''" and "upper (strip e) = ''END''"
    and "stdin w = map Line ls @ Line e # rest"
  shows "loop_body api retries delay s w =
           except_KeyboardInterrupt
             (dispatch api retries delay (strip (join_lines ls)) (s\<lparr>multiline_mode := False\<rparr>)
                (w\<lparr>stdin := rest, out := out w @ [Print MULTILINE_PROMPT]\<rparr>))"
  using assms
  by (simp add: loop_body_started read_and_dispatch_def get_multiline_message_block)

lemma multiline_mode_dispatch:
  "dispatch api retries delay m s w = (x, s', w') \<Longrightarrow> multiline_mode s' = multiline_mode s"
  by (auto simp: dispatch_def split: prod.splits sum.splits if_splits)

lemma session_except_KeyboardInterrupt:
  "fst (snd (except_KeyboardInterrupt r)) = fst (snd r)"
  by (auto simp: except_KeyboardInterrupt_def split: prod.splits sum.splits)

text \<open>
  C7. When the input is a sequence of lines none of which is the sentinel, followed by a
  line whose stripped, upper-cased value is \<open>END\<close>, \<open>get_multiline_message\<close> consumes
  exactly these lines, drops the sentinel and returns the lines joined by newline and
  stripped. Stripping removes only white space at the two ends (the joined text is the
  result between two runs of white space, and the result neither starts nor ends with
  white space), so blank lines inside the block stay. The pass of the loop that makes the
  capture ends with \<open>multiline_mode = False\<close>, whatever the service does with the message.
\<close>

theorem multiline_capture:
  assumes "\<forall>l\<in>set ls. upper (strip l) \<noteq> ''END''" and "upper (strip e) = ''END''"
    and "stdin w = map Line ls @ Line e # rest"
  shows "get_multiline_message w =
           (Inr (strip (join_lines ls)),
            w\<lparr>stdin := rest, out := out w @ [Print MULTILINE_PROMPT]\<rparr>)
       \<and> (\<exists>pre suf. join_lines ls = pre @ strip (join_lines ls) @ suf
              \<and> (\<forall>c\<in>set pre. is_space c) \<and> (\<forall>c\<in>set suf. is_space c))
       \<and> (strip (join_lines ls) = [] \<or>
            \<not> is_space (hd (strip (join_lines ls))) \<and> \<not> is_space (last (strip (join_lines ls))))
       \<and> (multiline_mode s \<longrightarrow>
            \<not> multiline_mode (fst (snd (read_and_dispatch api retries delay s w))))
       \<and> (conversation_started s \<and> multiline_mode s \<longrightarrow>
            \<not> multiline_mode (fst (snd (loop_body api retries delay s w))))"
proof -
  obtain x s' w' where d: "dispatch api retries delay (strip (join_lines ls))
      (s\<lparr>multiline_mode := False\<rparr>)
      (w\<lparr>stdin := rest, out := out w @ [Print MULTILINE_PROMPT]\<rparr>) = (x, s', w')"
    by (metis prod_cases3)
  from multiline_mode_dispatch [OF d] have m: "\<not> multiline_mode s'" by simp
  have rd: "\<not> multiline_mode (fst (snd (read_and_dispatch api retries delay s w)))"
    if "multiline_mode s"
    using that assms d m by (simp add: read_and_dispatch_def get_multiline_message_block)
  have lb: "\<not> multiline_mode (fst (snd (loop_body api retries delay s w)))"
    if "conversation_started s" "multiline_mode s"
    using that assms d m
    by (simp add: loop_body_multiline_block session_except_KeyboardInterrupt)
  show ?thesis
    using get_multiline_message_block [OF assms] strip_decompose [of "join_lines ls"]
      strip_edges [of "join_lines ls"] rd lb
    by blast
qed

theorem multiline_capture_witness:
  "get_multiline_message
     \<lparr>stdin = [Line ''  one'', Line [], Line ''two  '', Line '' end '', Line ''next''],
      calls = 0, out = []\<rparr> =
     (Inr ''one\<newline>\<newline>two'',
      \<lparr>stdin = [Line ''next''], calls = 0, out = [Print MULTILINE_PROMPT]\<rparr>)
   \<and> \<not> multiline_mode (fst (snd (loop_body (\<lambda>k. Raises OtherException) 3 2
        \<lparr>conversation_started = True, multiline_mode = True\<rparr>
        \<lparr>stdin = [Line ''  one'', Line [], Line ''two  '', Line '' end '', Line ''next''],
         calls = 0, out = []\<rparr>)))"
  using multiline_capture [of "[''  one'', [], ''two  '']" "'' end ''"
      "\<lparr>stdin = [Line ''  one'', Line [], Line ''two  '', Line '' end '', Line ''next''],
        calls = 0, out = []\<rparr>" "[Line ''next'']"
      "\<lparr>conversation_started = True, multiline_mode = True\<rparr>"
      "\<lambda>k. Raises OtherException" 3 2]
  by (simp add: strip_def lstrip_def rstrip_def is_space_def upper_def upper_char_def)


section \<open>Single-line input\<close>

lemma length_lower: "length (lower s) = length s"
  by (simp add: lower_def)

lemma length_upper: "length (upper s) = length s"
  by (simp add: upper_def)

lemma sentinel_is_no_command:
  assumes "upper m = ''END''"
  shows "m \<noteq> [] \<and> lower m \<noteq> ''multiline'' \<and> lower m \<noteq> ''exit'' \<and> lower m \<noteq> ''newchat''"
proof -
  have "length (upper m) = length ''END''"
    using assms by (rule arg_cong)
  then have 3: "length m = 3"
    by (simp add: length_upper)
  have "length m = length t" if "lower m = t" for t
    using arg_cong [OF that, of length] by (simp add: length_lower)
  from this [of "''multiline''"] this [of "''exit''"] this [of "''newchat''"] 3
  show ?thesis by auto
qed

lemma out_handle_response: "\<exists>es. out (snd (handle_response r w)) = out w @ es"
  by (auto simp: handle_response_def split: response.splits option.splits pyval.splits)

lemma out_send_and_render:
  "\<exists>es. out (snd (send_and_render api m w)) = out w @ ApiPrompt m False # es"
proof (cases "api (calls w)")
  case (Returns r)
  obtain es where "out (snd (handle_response r
      (w\<lparr>calls := Suc (calls w), out := out w @ [ApiPrompt m False]\<rparr>))) =
      out (w\<lparr>calls := Suc (calls w), out := out w @ [ApiPrompt m False]\<rparr>) @ es"
    using out_handle_response by blast
  with Returns show ?thesis
    by (auto simp: send_and_render_def api_prompt_def split: prod.splits sum.splits)
next
  case (Raises e)
  then show ?thesis by (simp add: send_and_render_def api_prompt_def)
qed

lemma out_attempts_loop: "\<exists>es. out (snd (attempts_loop api m r d as w)) = out w @ es"
proof (induction as arbitrary: w)
  case Nil
  show ?case by simp
next
  case (Cons a as)
  obtain x w1 where sr: "send_and_render api m w = (x, w1)" by (cases "send_and_render api m w")
  obtain es1 where e1: "out w1 = out w @ ApiPrompt m False # es1"
    using out_send_and_render [of api m w] sr by auto
  show ?case
  proof (cases x)
    case (Inr r)
    with sr e1 show ?thesis by simp
  next
    case (Inl e)
    obtain es2 where "out (snd (attempts_loop api m r d as
        (emit (Sleep d) (emit (Log WARNING (Retrying e a r)) w1)))) =
        out (emit (Sleep d) (emit (Log WARNING (Retrying e a r)) w1)) @ es2"
      using Cons.IH by blast
    with Inl sr e1 show ?thesis by simp
  qed
qed

lemma out_attempts_loop_Cons:
  "\<exists>es. out (snd (attempts_loop api m r d (a # as) w)) = out w @ ApiPrompt m False # es"
proof -
  obtain x w1 where sr: "send_and_render api m w = (x, w1)" by (cases "send_and_render api m w")
  obtain es1 where e1: "out w1 = out w @ ApiPrompt m False # es1"
    using out_send_and_render [of api m w] sr by auto
  show ?thesis
  proof (cases x)
    case (Inr r)
    with sr e1 show ?thesis by simp
  next
    case (Inl e)
    obtain es2 where "out (snd (attempts_loop api m r d as
        (emit (Sleep d) (emit (Log WARNING (Retrying e a r)) w1)))) =
        out (emit (Sleep d) (emit (Log WARNING (Retrying e a r)) w1)) @ es2"
      using out_attempts_loop by blast
    with Inl sr e1 show ?thesis by simp
  qed
qed

lemma out_process_message:
  assumes "1 \<le> retries"
  shows "\<exists>es. out (snd (process_message api m retries d w)) = out w @ ApiPrompt m False # es"
proof -
  have "[1..retries] = 1 # [2..retries]"
    using assms by (simp add: upto_rec1)
  then show ?thesis
    by (simp add: process_message_def out_attempts_loop_Cons del: attempts_loop.simps)
qed

lemma out_except_KeyboardInterrupt:
  "\<exists>es. out (snd (snd (except_KeyboardInterrupt r))) = out (snd (snd r)) @ es"
  by (auto simp: except_KeyboardInterrupt_def split: prod.splits sum.splits)

text \<open>The branch of \<open>dispatch\<close> that forwards the message.\<close>

lemma dispatch_forward:
  assumes "m \<noteq> []" and "lower m \<noteq> ''exit''" and "lower m \<noteq> ''newchat''"
  shows "dispatch api retries delay m s w =
           (case process_message api m retries delay w of
              (Inl e, w1) \<Rightarrow> (Inl e, s, w1)
            | (Inr outcome, w1) \<Rightarrow> (Inr Continue, s, w1))"
  using assms by (simp add: dispatch_def)

lemma out_dispatch_forward:
  assumes "m \<noteq> []" and "lower m \<noteq> ''exit''" and "lower m \<noteq> ''newchat''" and "1 \<le> retries"
  shows "\<exists>es. out (snd (snd (except_KeyboardInterrupt (dispatch api retries delay m s w)))) =
              out w @ ApiPrompt m False # es"
proof -
  obtain es1 where 1: "out (snd (process_message api m retries delay w)) =
      out w @ ApiPrompt m False # es1"
    using out_process_message [OF assms(4)] by blast
  have 2: "out (snd (snd (dispatch api retries delay m s w))) =
      out (snd (process_message api m retries delay w))"
    by (simp add: dispatch_forward [OF assms(1-3)] split: prod.splits sum.splits)
  obtain es2 where "out (snd (snd (except_KeyboardInterrupt (dispatch api retries delay m s w)))) =
      out (snd (snd (dispatch api retries delay m s w))) @ es2"
    using out_except_KeyboardInterrupt by blast
  with 1 2 show ?thesis by simp
qed

lemma get_message_Line:
  "stdin w = Line l # rest \<Longrightarrow>
   get_message p w = (Inr (strip l), w\<lparr>stdin := rest, out := out w @ [Print p]\<rparr>)"
  by (simp add: get_message_def input_line_def emit_def)

lemma loop_body_single_line:
  assumes "conversation_started s" and "\<not> multiline_mode s"
    and "stdin w = Line l # rest" and "lower (strip l) \<noteq> ''multiline''"
  shows "loop_body api retries delay s w =
           except_KeyboardInterrupt
             (dispatch api retries delay (strip l) s
                (w\<lparr>stdin := rest, out := out w @ [Print MESSAGE_PROMPT]\<rparr>))"
  using assms by (simp add: loop_body_started read_and_dispatch_def get_message_Line)

text \<open>
  C10. In single-line mode, with the conversation started, a line whose stripped,
  upper-cased value is \<open>END\<close> is neither empty nor one of the three commands: the pass
  hands the stripped line to \<open>process_message\<close> like any other message, and as soon as
  \<open>retries \<ge> 1\<close> the first thing that follows the prompt is the send of that text.
\<close>

theorem sentinel_in_single_line_mode:
  assumes "conversation_started s" and "\<not> multiline_mode s"
    and "stdin w = Line l # rest" and "upper (strip l) = ''END''"
  shows "strip l \<noteq> []
       \<and> loop_body api retries delay s w =
           except_KeyboardInterrupt
             (case process_message api (strip l) retries delay
                     (w\<lparr>stdin := rest, out := out w @ [Print MESSAGE_PROMPT]\<rparr>) of
                (Inl e, w1) \<Rightarrow> (Inl e, s, w1)
              | (Inr outcome, w1) \<Rightarrow> (Inr Continue, s, w1))
       \<and> (1 \<le> retries \<longrightarrow>
            (\<exists>es. out (snd (snd (loop_body api retries delay s w))) =
                   out w @ [Print MESSAGE_PROMPT, ApiPrompt (strip l) False] @ es))"
proof -
  note nc = sentinel_is_no_command [OF assms(4)]
  have lb: "loop_body api retries delay s w =
      except_KeyboardInterrupt
        (dispatch api retries delay (strip l) s
           (w\<lparr>stdin := rest, out := out w @ [Print MESSAGE_PROMPT]\<rparr>))"
    using assms(1-3) nc by (simp add: loop_body_single_line)
  have "\<exists>es. out (snd (snd (loop_body api retries delay s w))) =
              out w @ [Print MESSAGE_PROMPT, ApiPrompt (strip l) False] @ es"
    if "1 \<le> retries"
    using out_dispatch_forward [of "strip l" retries api delay s
        "w\<lparr>stdin := rest, out := out w @ [Print MESSAGE_PROMPT]\<rparr>"] nc that
    by (simp add: lb)
  then show ?thesis
    using nc lb by (simp add: dispatch_forward)
qed

theorem sentinel_in_single_line_mode_witness:
  "upper (strip '' End '') = ''END'' \<and>
   loop_body (\<lambda>k. Returns (Dict [(''message'', PStr ''ok'')])) 3 2
     \<lparr>conversation_started = True, multiline_mode = False\<rparr>
     \<lparr>stdin = [Line '' End ''], calls = 0, out = []\<rparr> =
   (Inr Continue, \<lparr>conversation_started = True, multiline_mode = False\<rparr>,
    \<lparr>stdin = [], calls = 1,
     out = [Print MESSAGE_PROMPT, ApiPrompt ''End'' False, Print [], PrintReply ''ok'', Print []]\<rparr>)"
  using sentinel_in_single_line_mode [of "\<lparr>conversation_started = True, multiline_mode = False\<rparr>"
      "\<lparr>stdin = [Line '' End ''], calls = 0, out = []\<rparr>" "'' End ''" "[]"
      "\<lambda>k. Returns (Dict [(''message'', PStr ''ok'')])" 3 2]
  by (simp add: strip_def lstrip_def rstrip_def is_space_def upper_def upper_char_def
      process_message_def upto_1_3 send_and_render_def api_prompt_def handle_response_def
      emit_def except_KeyboardInterrupt_def)

section \<open>The commands\<close>

lemma dispatch_exit:
  assumes "lower m = ''exit''" and "stdin w = Line a # rest"
  shows "dispatch api retries delay m s w =
           (if lower (strip a) = ''yes''
            then (Inr Break, s,
                  w\<lparr>stdin := rest, out := out w @ [Print EXIT_PROMPT, Clear, Print ENDING]\<rparr>)
            else (Inr Continue, s, w\<lparr>stdin := rest, out := out w @ [Print EXIT_PROMPT]\<rparr>))"
  using assms by (simp add: dispatch_def get_message_Line emit_def)

lemma dispatch_newchat:
  assumes "lower m = ''newchat''"
  shows "dispatch api retries delay m s w = (Inr Continue, s\<lparr>conversation_started := False\<rparr>, w)"
  using assms by (simp add: dispatch_def)

lemma dispatch_empty:
  "dispatch api retries delay [] s w = (Inr Continue, s, w\<lparr>out := out w @ [Print INVALID_INPUT]\<rparr>)"
  by (simp add: dispatch_def lower_def emit_def)

lemma dispatch_Break:
  assumes "fst (dispatch api retries delay m s w) = Inr Break"
  shows "lower m = ''exit'' \<and> (\<exists>a rest. stdin w = Line a # rest \<and> lower (strip a) = ''yes'')"
proof -
  have m: "lower m = ''exit''"
    using assms by (auto simp: dispatch_def split: if_splits prod.splits sum.splits)
  have "\<exists>a rest. stdin w = Line a # rest \<and> lower (strip a) = ''yes''"
  proof (cases "stdin w")
    case Nil
    with assms m show ?thesis
      by (simp add: dispatch_def get_message_def input_line_def)
  next
    case (Cons i rest)
    show ?thesis
    proof (cases i)
      case (Line a)
      with Cons assms m show ?thesis
        by (simp add: dispatch_exit split: if_splits)
    next
      case Interrupt
      with Cons assms m show ?thesis
        by (simp add: dispatch_def get_message_def input_line_def)
    qed
  qed
  with m show ?thesis by simp
qed

lemma except_KeyboardInterrupt_Inr [simp]:
  "except_KeyboardInterrupt (Inr c, s, w) = (Inr c, s, w)"
  by (simp add: except_KeyboardInterrupt_def)

lemma lower_char_cases:
  "lower_char c = CHR ''y'' \<longleftrightarrow> c = CHR ''y'' \<or> c = CHR ''Y''"
  "lower_char c = CHR ''e'' \<longleftrightarrow> c = CHR ''e'' \<or> c = CHR ''E''"
  "lower_char c = CHR ''s'' \<longleftrightarrow> c = CHR ''s'' \<or> c = CHR ''S''"
  by (auto simp: lower_char_def split: if_splits)

lemma lower_yes:
  "lower x = ''yes'' \<longleftrightarrow>
   x \<in> {''yes'', ''yeS'', ''yEs'', ''yES'', ''Yes'', ''YeS'', ''YEs'', ''YES''}"
proof
  assume "lower x = ''yes''"
  then obtain a b c where x: "x = [a, b, c]" and "lower_char a = CHR ''y''"
    "lower_char b = CHR ''e''" "lower_char c = CHR ''s''"
    by (auto simp: lower_def map_eq_Cons_conv)
  then have "(a = CHR ''y'' \<or> a = CHR ''Y'') \<and> (b = CHR ''e'' \<or> b = CHR ''E'')
      \<and> (c = CHR ''s'' \<or> c = CHR ''S'')"
    by (simp only: lower_char_cases)
  with x show "x \<in> {''yes'', ''yeS'', ''yEs'', ''yES'', ''Yes'', ''YeS'', ''YEs'', ''YES''}"
    by fastforce
next
  assume "x \<in> {''yes'', ''yeS'', ''yEs'', ''yES'', ''Yes'', ''YeS'', ''YEs'', ''YES''}"
  then show "lower x = ''yes''"
    by (auto simp: lower_def lower_char_def)
qed

text \<open>
  C6. With the conversation started and in single-line mode, a line that is \<open>exit\<close> in any
  case, followed by the answer to the confirmation prompt: the pass ends the loop exactly
  when the stripped answer, lower-cased, is \<open>yes\<close> (one of the eight spellings of
  \<open>yes\<close>); with any other answer the pass continues with the session unchanged, nothing
  sent, and nothing printed but the two prompts. The dispatch has no other way to break:
  whenever it breaks, the message was \<open>exit\<close> and the next line read was such a \<open>yes\<close>.
\<close>

theorem exit_needs_yes:
  assumes "conversation_started s" and "\<not> multiline_mode s"
    and "stdin w = Line l # Line a # rest" and "lower (strip l) = ''exit''"
  shows "loop_body api retries delay s w =
           (if lower (strip a) = ''yes''
            then (Inr Break, s,
                  w\<lparr>stdin := rest,
                    out := out w @ [Print MESSAGE_PROMPT, Print EXIT_PROMPT, Clear, Print ENDING]\<rparr>)
            else (Inr Continue, s,
                  w\<lparr>stdin := rest, out := out w @ [Print MESSAGE_PROMPT, Print EXIT_PROMPT]\<rparr>))
       \<and> (\<forall>m t v. fst (dispatch api retries delay m t v) = Inr Break \<longrightarrow>
             lower m = ''exit'' \<and>
             (\<exists>c r. stdin v = Line c # r \<and> lower (strip c) = ''yes''))
       \<and> (lower (strip a) = ''yes'') =
           (strip a \<in> {''yes'', ''yeS'', ''yEs'', ''yES'', ''Yes'', ''YeS'', ''YEs'', ''YES''})"
proof -
  have "lower (strip l) \<noteq> ''multiline''"
    using assms(4) by simp
  then have "loop_body api retries delay s w =
      except_KeyboardInterrupt
        (dispatch api retries delay (strip l) s
           (w\<lparr>stdin := Line a # rest, out := out w @ [Print MESSAGE_PROMPT]\<rparr>))"
    using assms(1-3) by (simp add: loop_body_single_line)
  then have "loop_body api retries delay s w =
           (if lower (strip a) = ''yes''
            then (Inr Break, s,
                  w\<lparr>stdin := rest,
                    out := out w @ [Print MESSAGE_PROMPT, Print EXIT_PROMPT, Clear, Print ENDING]\<rparr>)
            else (Inr Continue, s,
                  w\<lparr>stdin := rest, out := out w @ [Print MESSAGE_PROMPT, Print EXIT_PROMPT]\<rparr>))"
    using assms(4) by (simp add: dispatch_exit)
  then show ?thesis
    using dispatch_Break lower_yes [of "strip a"] by blast
qed

theorem exit_needs_yes_witness:
  "lower (strip ''Exit'') = ''exit''
   \<and> loop_body (\<lambda>k. Returns NotDict) 3 2
       \<lparr>conversation_started = True, multiline_mode = False\<rparr>
       \<lparr>stdin = [Line ''Exit'', Line '' YES ''], calls = 0, out = []\<rparr> =
     (Inr Break, \<lparr>conversation_started = True, multiline_mode = False\<rparr>,
      \<lparr>stdin = [], calls = 0,
       out = [Print MESSAGE_PROMPT, Print EXIT_PROMPT, Clear, Print ENDING]\<rparr>)
   \<and> loop_body (\<lambda>k. Returns NotDict) 3 2
       \<lparr>conversation_started = True, multiline_mode = False\<rparr>
       \<lparr>stdin = [Line ''Exit'', Line ''y''], calls = 0, out = []\<rparr> =
     (Inr Continue, \<lparr>conversation_started = True, multiline_mode = False\<rparr>,
      \<lparr>stdin = [], calls = 0, out = [Print MESSAGE_PROMPT, Print EXIT_PROMPT]\<rparr>)"
  using exit_needs_yes [of "\<lparr>conversation_started = True, multiline_mode = False\<rparr>"
      "\<lparr>stdin = [Line ''Exit'', Line '' YES ''], calls = 0, out = []\<rparr>" "''Exit''" "'' YES ''" "[]"
      "\<lambda>k. Returns NotDict" 3 2]
    exit_needs_yes [of "\<lparr>conversation_started = True, multiline_mode = False\<rparr>"
      "\<lparr>stdin = [Line ''Exit'', Line ''y''], calls = 0, out = []\<rparr>" "''Exit''" "''y''" "[]"
      "\<lambda>k. Returns NotDict" 3 2]
  by (simp add: strip_def lstrip_def rstrip_def is_space_def lower_def lower_char_def)


section \<open>The greeting\<close>

lemma greetings_append [simp]: "greetings (xs @ ys) = greetings xs + greetings ys"
  by (simp add: greetings_def)

lemma greetings_Cons [simp]: "greetings (e # es) = (if is_greeting e then 1 else 0) + greetings es"
  by (simp add: greetings_def)

lemma greetings_Nil [simp]: "greetings [] = 0"
  by (simp add: greetings_def)
















section \<open>What a multiline block may be\<close>

text \<open>The definitions a run of the whole loop on a concrete input unfolds.\<close>

lemmas run_defs = flow_conversation_def loop_body_def ensure_started_def
  start_new_conversation_def read_and_dispatch_def dispatch_def get_message_def
  get_multiline_message_def input_line_def except_KeyboardInterrupt_def
  process_message_def upto_1_3 send_and_render_def api_prompt_def handle_response_def
  emit_def strip_def lstrip_def rstrip_def is_space_def lower_def lower_char_def
  upper_def upper_char_def

text \<open>
  C1. The block captured in multiline mode is one string, and it goes through the same
  dispatch as a single line. It is never taken for the \<open>multiline\<close> toggle: a block that is
  \<open>multiline\<close> in any case is handed to \<open>process_message\<close> as message text. A block that is
  \<open>newchat\<close> resets the conversation and a block that is \<open>exit\<close> asks for the confirmation,
  ending the loop on \<open>yes\<close>; neither is sent.
\<close>

theorem multiline_block_dispatch:
  assumes "conversation_started s" and "multiline_mode s"
    and "\<forall>l\<in>set ls. upper (strip l) \<noteq> ''END''" and "upper (strip e) = ''END''"
    and "stdin w = map Line ls @ Line e # rest"
    and "b = strip (join_lines ls)"
  shows "loop_body api retries delay s w =
           except_KeyboardInterrupt
             (dispatch api retries delay b (s\<lparr>multiline_mode := False\<rparr>)
                (w\<lparr>stdin := rest, out := out w @ [Print MULTILINE_PROMPT]\<rparr>))
       \<and> (lower b = ''multiline'' \<longrightarrow>
            loop_body api retries delay s w =
              except_KeyboardInterrupt
                (case process_message api b retries delay
                        (w\<lparr>stdin := rest, out := out w @ [Print MULTILINE_PROMPT]\<rparr>) of
                   (Inl x, w1) \<Rightarrow> (Inl x, s\<lparr>multiline_mode := False\<rparr>, w1)
                 | (Inr outcome, w1) \<Rightarrow> (Inr Continue, s\<lparr>multiline_mode := False\<rparr>, w1)))
       \<and> (lower b = ''newchat'' \<longrightarrow>
            loop_body api retries delay s w =
              (Inr Continue, s\<lparr>conversation_started := False, multiline_mode := False\<rparr>,
               w\<lparr>stdin := rest, out := out w @ [Print MULTILINE_PROMPT]\<rparr>))
       \<and> (lower b = ''exit'' \<longrightarrow>
            (\<forall>a rest'. rest = Line a # rest' \<longrightarrow>
               loop_body api retries delay s w =
                 (if lower (strip a) = ''yes''
                  then (Inr Break, s\<lparr>multiline_mode := False\<rparr>,
                        w\<lparr>stdin := rest',
                          out := out w @ [Print MULTILINE_PROMPT, Print EXIT_PROMPT, Clear,
                                          Print ENDING]\<rparr>)
                  else (Inr Continue, s\<lparr>multiline_mode := False\<rparr>,
                        w\<lparr>stdin := rest',
                          out := out w @ [Print MULTILINE_PROMPT, Print EXIT_PROMPT]\<rparr>))))"
proof -
  have lb: "loop_body api retries delay s w =
      except_KeyboardInterrupt
        (dispatch api retries delay b (s\<lparr>multiline_mode := False\<rparr>)
           (w\<lparr>stdin := rest, out := out w @ [Print MULTILINE_PROMPT]\<rparr>))"
    using assms by (simp add: loop_body_multiline_block)
  have fwd: "dispatch api retries delay b t v =
      (case process_message api b retries delay v of
         (Inl x, w1) \<Rightarrow> (Inl x, t, w1)
       | (Inr outcome, w1) \<Rightarrow> (Inr Continue, t, w1))"
    if "lower b = ''multiline''" for t v
  proof -
    have "b \<noteq> []" using that by (auto simp: lower_def)
    moreover have "lower b \<noteq> ''exit''" "lower b \<noteq> ''newchat''" using that by simp_all
    ultimately show ?thesis by (rule dispatch_forward)
  qed
  have new: "dispatch api retries delay b t v = (Inr Continue, t\<lparr>conversation_started := False\<rparr>, v)"
    if "lower b = ''newchat''" for t v
    using that by (rule dispatch_newchat)
  have ex: "dispatch api retries delay b t v =
      (if lower (strip a) = ''yes''
       then (Inr Break, t, v\<lparr>stdin := rest', out := out v @ [Print EXIT_PROMPT, Clear, Print ENDING]\<rparr>)
       else (Inr Continue, t, v\<lparr>stdin := rest', out := out v @ [Print EXIT_PROMPT]\<rparr>))"
    if "lower b = ''exit''" "stdin v = Line a # rest'" for t v a rest'
    using that by (rule dispatch_exit)
  show ?thesis
    using lb by (simp add: fwd new ex)
qed

theorem multiline_block_dispatch_witness:
  "upper (strip ''end'') = ''END''
   \<and> loop_body (\<lambda>k. Returns (Dict [(''message'', PStr ''ok'')])) 3 2
       \<lparr>conversation_started = True, multiline_mode = True\<rparr>
       \<lparr>stdin = [Line ''MultiLine'', Line ''end''], calls = 0, out = []\<rparr> =
     (Inr Continue, \<lparr>conversation_started = True, multiline_mode = False\<rparr>,
      \<lparr>stdin = [], calls = 1,
       out = [Print MULTILINE_PROMPT, ApiPrompt ''MultiLine'' False,
              Print [], PrintReply ''ok'', Print []]\<rparr>)
   \<and> loop_body (\<lambda>k. Returns (Dict [(''message'', PStr ''ok'')])) 3 2
       \<lparr>conversation_started = True, multiline_mode = True\<rparr>
       \<lparr>stdin = [Line ''NewChat'', Line ''end''], calls = 0, out = []\<rparr> =
     (Inr Continue, \<lparr>conversation_started = False, multiline_mode = False\<rparr>,
      \<lparr>stdin = [], calls = 0, out = [Print MULTILINE_PROMPT]\<rparr>)"
  using multiline_block_dispatch [of "\<lparr>conversation_started = True, multiline_mode = True\<rparr>"
      "[''MultiLine'']" "''end''" "\<lparr>stdin = [Line ''MultiLine'', Line ''end''], calls = 0, out = []\<rparr>"
      "[]" "''MultiLine''" "\<lambda>k. Returns (Dict [(''message'', PStr ''ok'')])" 3 2]
    multiline_block_dispatch [of "\<lparr>conversation_started = True, multiline_mode = True\<rparr>"
      "[''NewChat'']" "''end''" "\<lparr>stdin = [Line ''NewChat'', Line ''end''], calls = 0, out = []\<rparr>"
      "[]" "''NewChat''" "\<lambda>k. Returns (Dict [(''message'', PStr ''ok'')])" 3 2]
  by (simp add: strip_def lstrip_def rstrip_def is_space_def lower_def lower_char_def
      upper_def upper_char_def except_KeyboardInterrupt_def dispatch_def
      process_message_def upto_1_3 send_and_render_def api_prompt_def handle_response_def
      emit_def)

text \<open>
  That a multiline block is never a command does not hold. A whole run: the greeting
  succeeds, the user switches to multiline mode, types the block \<open>exit\<close> closed by \<open>END\<close>,
  then answers \<open>yes\<close>. The only call of the service is the greeting; the block is not sent,
  the confirmation is asked and the loop ends.
\<close>

theorem multiline_block_exit_counterexample:
  "flow_conversation (\<lambda>k. Returns (Dict [(''message'', PStr ''hello'')])) 3 2
     \<lparr>stdin = [Line ''multiline'', Line ''exit'', Line ''END'', Line ''yes''],
      calls = 0, out = []\<rparr> =
   (Inr (), \<lparr>conversation_started = True, multiline_mode = False\<rparr>,
    \<lparr>stdin = [], calls = 1,
     out = [Clear, Instructions, Clear, Instructions, Print STARTING,
            ApiPrompt load_instructions True, Print [], PrintReply ''hello'', Print [],
            Print MESSAGE_PROMPT, Print SWITCHED, Print MULTILINE_PROMPT,
            Print EXIT_PROMPT, Clear, Print ENDING]\<rparr>)"
  by (simp add: run_defs)

text \<open>
  C2. When the captured block is empty after stripping (nothing but the sentinel, or only
  blank lines before it), the pass makes no send: it prints the invalid-input notice and
  continues in single-line mode with the conversation as it was.
\<close>

theorem empty_block_is_invalid:
  assumes "conversation_started s" and "multiline_mode s"
    and "\<forall>l\<in>set ls. upper (strip l) \<noteq> ''END''" and "upper (strip e) = ''END''"
    and "stdin w = map Line ls @ Line e # rest"
    and "strip (join_lines ls) = []"
  shows "loop_body api retries delay s w =
           (Inr Continue, s\<lparr>multiline_mode := False\<rparr>,
            w\<lparr>stdin := rest, out := out w @ [Print MULTILINE_PROMPT, Print INVALID_INPUT]\<rparr>)
       \<and> calls (snd (snd (loop_body api retries delay s w))) = calls w
       \<and> sends (out (snd (snd (loop_body api retries delay s w)))) = sends (out w)"
proof -
  have "loop_body api retries delay s w =
           (Inr Continue, s\<lparr>multiline_mode := False\<rparr>,
            w\<lparr>stdin := rest, out := out w @ [Print MULTILINE_PROMPT, Print INVALID_INPUT]\<rparr>)"
    using assms by (simp add: loop_body_multiline_block dispatch_empty)
  then show ?thesis by simp
qed

theorem empty_block_is_invalid_witness:
  "upper (strip ''END'') = ''END''
   \<and> loop_body (\<lambda>k. Returns (Dict [(''message'', PStr ''ok'')])) 3 2
       \<lparr>conversation_started = True, multiline_mode = True\<rparr>
       \<lparr>stdin = [Line ''END''], calls = 0, out = []\<rparr> =
     (Inr Continue, \<lparr>conversation_started = True, multiline_mode = False\<rparr>,
      \<lparr>stdin = [], calls = 0, out = [Print MULTILINE_PROMPT, Print INVALID_INPUT]\<rparr>)
   \<and> loop_body (\<lambda>k. Returns (Dict [(''message'', PStr ''ok'')])) 3 2
       \<lparr>conversation_started = True, multiline_mode = True\<rparr>
       \<lparr>stdin = [Line ''  '', Line [], Line ''END''], calls = 0, out = []\<rparr> =
     (Inr Continue, \<lparr>conversation_started = True, multiline_mode = False\<rparr>,
      \<lparr>stdin = [], calls = 0, out = [Print MULTILINE_PROMPT, Print INVALID_INPUT]\<rparr>)"
  using empty_block_is_invalid [of "\<lparr>conversation_started = True, multiline_mode = True\<rparr>"
      "[]" "''END''" "\<lparr>stdin = [Line ''END''], calls = 0, out = []\<rparr>" "[]"
      "\<lambda>k. Returns (Dict [(''message'', PStr ''ok'')])" 3 2]
    empty_block_is_invalid [of "\<lparr>conversation_started = True, multiline_mode = True\<rparr>"
      "[''  '', []]" "''END''" "\<lparr>stdin = [Line ''  '', Line [], Line ''END''], calls = 0, out = []\<rparr>"
      "[]" "\<lambda>k. Returns (Dict [(''message'', PStr ''ok'')])" 3 2]
  by (simp add: strip_def lstrip_def rstrip_def is_space_def upper_def upper_char_def)

text \<open>
  That an empty multiline block is sent does not hold. A whole run: the greeting succeeds,
  the user switches to multiline mode and types \<open>END\<close> at once, then interrupts at the next
  prompt. The only call of the service is the greeting; the empty block gets the
  invalid-input notice.
\<close>

theorem empty_multiline_block_counterexample:
  "flow_conversation (\<lambda>k. Returns (Dict [(''message'', PStr ''hello'')])) 3 2
     \<lparr>stdin = [Line ''multiline'', Line ''END'', Interrupt], calls = 0, out = []\<rparr> =
   (Inr (), \<lparr>conversation_started = True, multiline_mode = False\<rparr>,
    \<lparr>stdin = [], calls = 1,
     out = [Clear, Instructions, Clear, Instructions, Print STARTING,
            ApiPrompt load_instructions True, Print [], PrintReply ''hello'', Print [],
            Print MESSAGE_PROMPT, Print SWITCHED, Print MULTILINE_PROMPT,
            Print INVALID_INPUT, Print MESSAGE_PROMPT, Print INTERRUPTED]\<rparr>)"
  by (simp add: run_defs)


end
